theory Spec2Isabelle
  imports Complex_Main
begin

section \<open>Numbers\<close>

text \<open>
  The analysis computes with numpy \<open>float64\<close> scalars. The embedding keeps the part of
  their behaviour that changes control flow and results: the special values. A finite
  value is an exact real (rounding and overflow of binary64 are not modelled), and the
  three special values appear where numpy produces them: a division by zero gives
  an infinity or NaN and raises nothing, a square root of a negative number and an
  arcsine outside \<open>[-1, 1]\<close> give NaN, and every comparison with NaN is false.
  Zero carries no sign: every zero divisor of the program is a mean of 0/1 outcomes,
  a count or a square root, so \<open>x / 0\<close> with \<open>x > 0\<close> is \<open>+inf\<close>.
\<close>

datatype npfloat = Fin real | PInf | NInf | NaN

fun fneg :: "npfloat \<Rightarrow> npfloat" where
  "fneg (Fin x) = Fin (- x)"
| "fneg PInf = NInf"
| "fneg NInf = PInf"
| "fneg NaN = NaN"

fun fadd :: "npfloat \<Rightarrow> npfloat \<Rightarrow> npfloat" where
  "fadd (Fin x) (Fin y) = Fin (x + y)"
| "fadd NaN _ = NaN"
| "fadd _ NaN = NaN"
| "fadd PInf NInf = NaN"
| "fadd NInf PInf = NaN"
| "fadd PInf _ = PInf"
| "fadd _ PInf = PInf"
| "fadd NInf _ = NInf"
| "fadd _ NInf = NInf"

definition fsub :: "npfloat \<Rightarrow> npfloat \<Rightarrow> npfloat" where
  "fsub a b = fadd a (fneg b)"

fun fmul :: "npfloat \<Rightarrow> npfloat \<Rightarrow> npfloat" where
  "fmul (Fin x) (Fin y) = Fin (x * y)"
| "fmul NaN _ = NaN"
| "fmul _ NaN = NaN"
| "fmul PInf (Fin y) = (if y = 0 then NaN else if 0 < y then PInf else NInf)"
| "fmul NInf (Fin y) = (if y = 0 then NaN else if 0 < y then NInf else PInf)"
| "fmul (Fin x) PInf = (if x = 0 then NaN else if 0 < x then PInf else NInf)"
| "fmul (Fin x) NInf = (if x = 0 then NaN else if 0 < x then NInf else PInf)"
| "fmul PInf PInf = PInf"
| "fmul PInf NInf = NInf"
| "fmul NInf PInf = NInf"
| "fmul NInf NInf = PInf"

fun fdiv :: "npfloat \<Rightarrow> npfloat \<Rightarrow> npfloat" where
  "fdiv (Fin x) (Fin y) =
     (if y = 0 then (if x = 0 then NaN else if 0 < x then PInf else NInf)
      else Fin (x / y))"
| "fdiv NaN _ = NaN"
| "fdiv _ NaN = NaN"
| "fdiv (Fin x) PInf = Fin 0"
| "fdiv (Fin x) NInf = Fin 0"
| "fdiv PInf (Fin y) = (if 0 \<le> y then PInf else NInf)"
| "fdiv NInf (Fin y) = (if 0 \<le> y then NInf else PInf)"
| "fdiv PInf PInf = NaN"
| "fdiv PInf NInf = NaN"
| "fdiv NInf PInf = NaN"
| "fdiv NInf NInf = NaN"

fun fsqrt :: "npfloat \<Rightarrow> npfloat" where
  "fsqrt (Fin x) = (if x < 0 then NaN else Fin (sqrt x))"
| "fsqrt PInf = PInf"
| "fsqrt NInf = NaN"
| "fsqrt NaN = NaN"

fun farcsin :: "npfloat \<Rightarrow> npfloat" where
  "farcsin (Fin x) = (if - 1 \<le> x \<and> x \<le> 1 then Fin (arcsin x) else NaN)"
| "farcsin PInf = NaN"
| "farcsin NInf = NaN"
| "farcsin NaN = NaN"

fun fabs :: "npfloat \<Rightarrow> npfloat" where
  "fabs (Fin x) = Fin \<bar>x\<bar>"
| "fabs PInf = PInf"
| "fabs NInf = PInf"
| "fabs NaN = NaN"

fun flt :: "npfloat \<Rightarrow> npfloat \<Rightarrow> bool" where
  "flt (Fin x) (Fin y) = (x < y)"
| "flt NaN _ = False"
| "flt _ NaN = False"
| "flt _ NInf = False"
| "flt PInf _ = False"
| "flt NInf _ = True"
| "flt _ PInf = True"

definition fgt :: "npfloat \<Rightarrow> npfloat \<Rightarrow> bool" where
  "fgt a b = flt b a"

fun fle :: "npfloat \<Rightarrow> npfloat \<Rightarrow> bool" where
  "fle (Fin x) (Fin y) = (x \<le> y)"
| "fle NaN _ = False"
| "fle _ NaN = False"
| "fle NInf _ = True"
| "fle _ PInf = True"
| "fle PInf _ = False"
| "fle _ NInf = False"

definition fge :: "npfloat \<Rightarrow> npfloat \<Rightarrow> bool" where
  "fge a b = fle b a"

text \<open>
  \<open>scipy.stats.norm.cdf\<close> is the standard normal distribution function. On a finite
  argument it is modelled by the function itself, given by its Maclaurin series
  \<open>1/2 + (1/sqrt(2 pi)) * (x - x^3/6 + x^5/40 - ...)\<close>.
\<close>

definition std_normal_cdf :: "real \<Rightarrow> real" where
  "std_normal_cdf x =
     1 / 2 + (\<Sum>n. (- 1) ^ n * x ^ (2 * n + 1) / (real (2 * n + 1) * 2 ^ n * fact n))
             / sqrt (2 * pi)"

fun norm_cdf :: "npfloat \<Rightarrow> npfloat" where
  "norm_cdf (Fin x) = Fin (std_normal_cdf x)"
| "norm_cdf PInf = Fin 1"
| "norm_cdf NInf = Fin 0"
| "norm_cdf NaN = NaN"

section \<open>Errors\<close>

text \<open>The Python exceptions that the modelled code can raise.\<close>

datatype pyerror = ValueError | KeyError | ZeroDivisionError

section \<open>Data model\<close>

datatype group_label = Control | Treatment

record observation =
  user_id :: int
  group_of :: group_label
  converted :: int

type_synonym dataframe = "observation list"

datatype effect_category = Small | Medium | Large

text \<open>
  \<open>self.results\<close> is a dict with a fixed set of string keys. Each key is a field that
  holds \<open>None\<close> until a stage writes it; reading an unwritten key is Python's
  \<open>KeyError\<close>. The field \<open>res_k\<close> stands for \<open>results['k']\<close>.
\<close>

record result_set =
  res_control_rate :: "npfloat option"
  res_treatment_rate :: "npfloat option"
  res_absolute_lift :: "npfloat option"
  res_relative_lift :: "npfloat option"
  res_z_stat :: "npfloat option"
  res_p_value :: "npfloat option"
  res_t_stat :: "npfloat option"
  res_t_pvalue :: "npfloat option"
  res_control_ci :: "(npfloat \<times> npfloat) option"
  res_treatment_ci :: "(npfloat \<times> npfloat) option"
  res_diff_ci :: "(npfloat \<times> npfloat) option"
  res_cohens_h :: "npfloat option"
  res_effect_category :: "effect_category option"
  res_achieved_power :: "npfloat option"
  res_required_n :: "npfloat option"
  res_monthly_visitors :: "npfloat option"
  res_avg_order_value :: "npfloat option"
  res_additional_conversions :: "npfloat option"
  res_additional_revenue :: "npfloat option"

definition empty_results :: result_set where
  "empty_results =
     \<lparr>res_control_rate = None, res_treatment_rate = None, res_absolute_lift = None,
      res_relative_lift = None, res_z_stat = None, res_p_value = None, res_t_stat = None,
      res_t_pvalue = None, res_control_ci = None, res_treatment_ci = None,
      res_diff_ci = None, res_cohens_h = None, res_effect_category = None,
      res_achieved_power = None, res_required_n = None, res_monthly_visitors = None,
      res_avg_order_value = None, res_additional_conversions = None,
      res_additional_revenue = None\<rparr>"

text \<open>The fields of an \<open>ABTestAnalyzer\<close> instance.\<close>

record analyzer =
  control_rate :: npfloat
  treatment_rate :: npfloat
  n_per_group :: int
  alpha :: npfloat
  df :: dataframe
  results :: result_set

datatype recommendation = Proceed | InsufficientEvidence

section \<open>Third-party functions\<close>

text \<open>
  numpy's global generator is a state of some type \<open>'g\<close>: \<open>seed\<close> is
  \<open>np.random.seed\<close>, and \<open>bernoulli g p\<close> is one draw of \<open>binomial(1, p)\<close> from the
  state \<open>g\<close>, with the state after it. Both are deterministic functions of their
  arguments, as the generator is.
\<close>

record 'g np_random =
  seed :: "nat \<Rightarrow> 'g"
  bernoulli :: "'g \<Rightarrow> real \<Rightarrow> bool \<times> 'g"

text \<open>
  The functions of scipy and statsmodels that have no closed form here:
  \<open>norm_ppf\<close> is \<open>stats.norm.ppf\<close>, \<open>ttest_ind\<close> is \<open>stats.ttest_ind\<close> (statistic and
  p-value), and \<open>zt_ind_solve_power es nobs1 al power\<close> is statsmodels' solver called
  with \<open>ratio=1.0\<close> and \<open>alternative='two-sided'\<close>; it solves for the argument given
  as \<open>None\<close> and may raise.
\<close>

record stats_lib =
  norm_ppf :: "real \<Rightarrow> npfloat"
  ttest_ind :: "int list \<Rightarrow> int list \<Rightarrow> npfloat \<times> npfloat"
  zt_ind_solve_power ::
    "npfloat \<Rightarrow> int option \<Rightarrow> npfloat \<Rightarrow> real option \<Rightarrow> pyerror + npfloat"

section \<open>Data generation\<close>

text \<open>
  \<open>np.random.binomial(1, p, size)\<close>: numpy checks the probability first
  (\<open>ValueError\<close> unless \<open>0 <= p <= 1\<close>, so also for NaN), then allocates the output
  (\<open>ValueError\<close> for a negative size), then draws \<open>size\<close> outcomes one after the
  other. The result comes with the generator state left behind, which an exception
  does not roll back.
\<close>

fun draws :: "'g np_random \<Rightarrow> 'g \<Rightarrow> real \<Rightarrow> nat \<Rightarrow> int list \<times> 'g" where
  "draws R g p 0 = ([], g)"
| "draws R g p (Suc k) =
     (case bernoulli R g p of
        (b, g') \<Rightarrow> (case draws R g' p k of (bs, g'') \<Rightarrow> (of_bool b # bs, g'')))"

definition random_binomial1 ::
  "'g np_random \<Rightarrow> 'g \<Rightarrow> npfloat \<Rightarrow> int \<Rightarrow> (pyerror + int list) \<times> 'g" where
  "random_binomial1 R g p sz =
     (if \<not> (fge p (Fin 0) \<and> fle p (Fin 1)) then (Inl ValueError, g)
      else if sz < 0 then (Inl ValueError, g)
      else (case p of
              Fin x \<Rightarrow> (case draws R g x (nat sz) of (bs, g') \<Rightarrow> (Inr bs, g'))
            | _ \<Rightarrow> (Inl ValueError, g)))"

text \<open>
  The table built by \<open>_generate_data\<close>: ids \<open>1 .. 2n\<close>, \<open>n\<close> rows labelled Control
  followed by \<open>n\<close> labelled Treatment, and the two outcome arrays concatenated.
\<close>

definition make_dataframe :: "int \<Rightarrow> int list \<Rightarrow> int list \<Rightarrow> dataframe" where
  "make_dataframe n control_conversions treatment_conversions =
     map (\<lambda>(i, g, c). \<lparr>user_id = i, group_of = g, converted = c\<rparr>)
       (zip [1 .. 2 * n]
         (zip (replicate (nat n) Control @ replicate (nat n) Treatment)
              (control_conversions @ treatment_conversions)))"

definition generate_data ::
  "'g np_random \<Rightarrow> 'g \<Rightarrow> npfloat \<Rightarrow> npfloat \<Rightarrow> int \<Rightarrow> (pyerror + dataframe) \<times> 'g" where
  "generate_data R g p_c p_t n =
     (case random_binomial1 R g p_c n of
        (Inl e, g1) \<Rightarrow> (Inl e, g1)
      | (Inr control_conversions, g1) \<Rightarrow>
          (case random_binomial1 R g1 p_t n of
             (Inl e, g2) \<Rightarrow> (Inl e, g2)
           | (Inr treatment_conversions, g2) \<Rightarrow>
               (Inr (make_dataframe n control_conversions treatment_conversions), g2)))"

text \<open>
  The constructor. \<open>g\<close> is the state of numpy's global generator when the constructor
  is called; the constructor stores its four arguments, reseeds the generator with 42
  and generates the data.
\<close>

definition ABTestAnalyzer_init ::
  "'g np_random \<Rightarrow> 'g \<Rightarrow> npfloat \<Rightarrow> npfloat \<Rightarrow> int \<Rightarrow> npfloat \<Rightarrow> (pyerror + analyzer) \<times> 'g" where
  "ABTestAnalyzer_init R g p_c p_t n al =
     (case generate_data R (seed R 42) p_c p_t n of
        (Inl e, g') \<Rightarrow> (Inl e, g')
      | (Inr d, g') \<Rightarrow>
          (Inr \<lparr>control_rate = p_c, treatment_rate = p_t, n_per_group = n, alpha = al,
                df = d, results = empty_results\<rparr>, g'))"

section \<open>Analysis stages\<close>

text \<open>\<open>df[df['group'] == g]['converted']\<close>: the outcomes of one cohort, in table order.\<close>

definition cohort :: "group_label \<Rightarrow> dataframe \<Rightarrow> int list" where
  "cohort g d = map converted (filter (\<lambda>r. group_of r = g) d)"

text \<open>
  \<open>df.groupby('group')['converted'].agg(['sum', 'count', 'mean'])\<close>: one row per group
  that occurs in the table, in sorted order of the labels.
\<close>

definition group_summary :: "dataframe \<Rightarrow> (group_label \<times> int \<times> nat \<times> npfloat) list" where
  "group_summary d =
     map (\<lambda>g. (g, sum_list (cohort g d), length (cohort g d),
                fdiv (Fin (of_int (sum_list (cohort g d)))) (Fin (of_nat (length (cohort g d))))))
       (filter (\<lambda>g. cohort g d \<noteq> []) [Control, Treatment])"

text \<open>\<open>summary.loc[g, 'mean']\<close>, a \<open>KeyError\<close> when the group has no row.\<close>

definition loc_mean ::
  "(group_label \<times> int \<times> nat \<times> npfloat) list \<Rightarrow> group_label \<Rightarrow> pyerror + npfloat" where
  "loc_mean summary g =
     (case map_of summary g of None \<Rightarrow> Inl KeyError | Some (s, c, m) \<Rightarrow> Inr m)"

definition calculate_basic_metrics ::
  "analyzer \<Rightarrow> pyerror + analyzer \<times> (group_label \<times> int \<times> nat \<times> npfloat) list" where
  "calculate_basic_metrics a =
     (let summary = group_summary (df a) in
      case loc_mean summary Control of
        Inl e \<Rightarrow> Inl e
      | Inr rate_c \<Rightarrow>
          (case loc_mean summary Treatment of
             Inl e \<Rightarrow> Inl e
           | Inr rate_t \<Rightarrow>
               (let absolute_lift = fsub rate_t rate_c;
                    relative_lift = fmul (fsub (fdiv rate_t rate_c) (Fin 1)) (Fin 100)
                in Inr (a\<lparr>results := (results a)
                            \<lparr>res_control_rate := Some rate_c,
                             res_treatment_rate := Some rate_t,
                             res_absolute_lift := Some absolute_lift,
                             res_relative_lift := Some relative_lift\<rparr>\<rparr>,
                        summary))))"

text \<open>
  The two-proportion z-test. \<open>1/control_n\<close> and \<open>1/treatment_n\<close> divide Python integers,
  so an empty cohort raises \<open>ZeroDivisionError\<close>; every other division is numpy's.
\<close>

definition run_hypothesis_test ::
  "stats_lib \<Rightarrow> analyzer \<Rightarrow> pyerror + analyzer \<times> (npfloat \<times> npfloat)" where
  "run_hypothesis_test L a =
     (let control_data = cohort Control (df a);
          treatment_data = cohort Treatment (df a);
          control_conv = sum_list control_data;
          control_n = length control_data;
          treatment_conv = sum_list treatment_data;
          treatment_n = length treatment_data;
          pooled_prob = fdiv (Fin (of_int (control_conv + treatment_conv)))
                             (Fin (of_nat (control_n + treatment_n)))
      in if control_n = 0 \<or> treatment_n = 0 then Inl ZeroDivisionError
         else
          (let pooled_se = fsqrt (fmul (fmul pooled_prob (fsub (Fin 1) pooled_prob))
                                       (Fin (1 / of_nat control_n + 1 / of_nat treatment_n)))
           in case res_treatment_rate (results a) of
                None \<Rightarrow> Inl KeyError
              | Some rate_t \<Rightarrow>
                  (case res_control_rate (results a) of
                     None \<Rightarrow> Inl KeyError
                   | Some rate_c \<Rightarrow>
                       (let z_stat = fdiv (fsub rate_t rate_c) pooled_se;
                            p_value = fmul (Fin 2) (fsub (Fin 1) (norm_cdf (fabs z_stat)));
                            t = ttest_ind L treatment_data control_data
                        in Inr (a\<lparr>results := (results a)
                                    \<lparr>res_z_stat := Some z_stat,
                                     res_p_value := Some p_value,
                                     res_t_stat := Some (fst t),
                                     res_t_pvalue := Some (snd t)\<rparr>\<rparr>,
                                (z_stat, p_value))))))"

text \<open>The local function \<open>ci(successes, n, confidence=0.95)\<close>.\<close>

definition ci :: "stats_lib \<Rightarrow> int \<Rightarrow> nat \<Rightarrow> real \<Rightarrow> npfloat \<times> npfloat" where
  "ci L successes n confidence =
     (let prop = fdiv (Fin (of_int successes)) (Fin (of_nat n));
          z_critical = norm_ppf L (1 - (1 - confidence) / 2);
          se = fsqrt (fdiv (fmul prop (fsub (Fin 1) prop)) (Fin (of_nat n)));
          margin = fmul z_critical se
      in (fsub prop margin, fadd prop margin))"

definition calculate_confidence_intervals ::
  "stats_lib \<Rightarrow> analyzer \<Rightarrow>
     pyerror + analyzer \<times> ((npfloat \<times> npfloat) \<times> (npfloat \<times> npfloat) \<times> (npfloat \<times> npfloat))" where
  "calculate_confidence_intervals L a =
     (let control_data = cohort Control (df a);
          treatment_data = cohort Treatment (df a);
          control_ci = ci L (sum_list control_data) (length control_data) (95 / 100);
          treatment_ci = ci L (sum_list treatment_data) (length treatment_data) (95 / 100)
      in case res_treatment_rate (results a) of
           None \<Rightarrow> Inl KeyError
         | Some rate_t \<Rightarrow>
             (case res_control_rate (results a) of
                None \<Rightarrow> Inl KeyError
              | Some rate_c \<Rightarrow>
                  (let diff = fsub rate_t rate_c;
                       se_diff = fsqrt (fadd
                         (fdiv (fmul rate_c (fsub (Fin 1) rate_c)) (Fin (of_int (n_per_group a))))
                         (fdiv (fmul rate_t (fsub (Fin 1) rate_t)) (Fin (of_int (n_per_group a)))));
                       z_critical = Fin (196 / 100);
                       diff_ci = (fsub diff (fmul z_critical se_diff),
                                  fadd diff (fmul z_critical se_diff))
                   in Inr (a\<lparr>results := (results a)
                               \<lparr>res_control_ci := Some control_ci,
                                res_treatment_ci := Some treatment_ci,
                                res_diff_ci := Some diff_ci\<rparr>\<rparr>,
                           (control_ci, treatment_ci, diff_ci)))))"

definition calculate_effect_size :: "analyzer \<Rightarrow> pyerror + analyzer \<times> (npfloat \<times> effect_category)" where
  "calculate_effect_size a =
     (case res_treatment_rate (results a) of
        None \<Rightarrow> Inl KeyError
      | Some rate_t \<Rightarrow>
          (case res_control_rate (results a) of
             None \<Rightarrow> Inl KeyError
           | Some rate_c \<Rightarrow>
               (let h = fmul (Fin 2) (fsub (farcsin (fsqrt rate_t)) (farcsin (fsqrt rate_c)));
                    category = (if flt (fabs h) (Fin (2 / 10)) then Small
                                else if flt (fabs h) (Fin (5 / 10)) then Medium
                                else Large)
                in Inr (a\<lparr>results := (results a)
                            \<lparr>res_cohens_h := Some h,
                             res_effect_category := Some category\<rparr>\<rparr>,
                        (h, category)))))"

text \<open>
  statsmodels' \<open>proportion_effectsize(prop1, prop2)\<close> is
  \<open>2 * (arcsin(sqrt(prop1)) - arcsin(sqrt(prop2)))\<close>.
\<close>

definition proportion_effectsize :: "npfloat \<Rightarrow> npfloat \<Rightarrow> npfloat" where
  "proportion_effectsize prop1 prop2 =
     fmul (Fin 2) (fsub (farcsin (fsqrt prop1)) (farcsin (fsqrt prop2)))"

definition calculate_power :: "stats_lib \<Rightarrow> analyzer \<Rightarrow> pyerror + analyzer \<times> (npfloat \<times> npfloat)" where
  "calculate_power L a =
     (case res_control_rate (results a) of
        None \<Rightarrow> Inl KeyError
      | Some rate_c \<Rightarrow>
          (case res_treatment_rate (results a) of
             None \<Rightarrow> Inl KeyError
           | Some rate_t \<Rightarrow>
               (let effect_size = proportion_effectsize rate_c rate_t in
                case zt_ind_solve_power L effect_size (Some (n_per_group a)) (alpha a) None of
                  Inl e \<Rightarrow> Inl e
                | Inr achieved_power \<Rightarrow>
                    (case zt_ind_solve_power L effect_size None (alpha a) (Some (8 / 10)) of
                       Inl e \<Rightarrow> Inl e
                     | Inr required_n \<Rightarrow>
                         Inr (a\<lparr>results := (results a)
                                  \<lparr>res_achieved_power := Some achieved_power,
                                   res_required_n := Some required_n\<rparr>\<rparr>,
                              (achieved_power, required_n))))))"

definition calculate_business_impact :: "real \<Rightarrow> real \<Rightarrow> analyzer \<Rightarrow> pyerror + analyzer \<times> npfloat" where
  "calculate_business_impact monthly_visitors avg_order_value a =
     (case res_control_rate (results a) of
        None \<Rightarrow> Inl KeyError
      | Some rate_c \<Rightarrow>
          (case res_treatment_rate (results a) of
             None \<Rightarrow> Inl KeyError
           | Some rate_t \<Rightarrow>
               (let current_conversions = fmul (Fin monthly_visitors) rate_c;
                    projected_conversions = fmul (Fin monthly_visitors) rate_t;
                    current_revenue = fmul current_conversions (Fin avg_order_value);
                    projected_revenue = fmul projected_conversions (Fin avg_order_value);
                    additional_conversions = fsub projected_conversions current_conversions;
                    additional_revenue = fsub projected_revenue current_revenue
                in Inr (a\<lparr>results := (results a)
                            \<lparr>res_monthly_visitors := Some (Fin monthly_visitors),
                             res_avg_order_value := Some (Fin avg_order_value),
                             res_additional_conversions := Some additional_conversions,
                             res_additional_revenue := Some additional_revenue\<rparr>\<rparr>,
                        additional_revenue))))"

section \<open>The pipeline\<close>

text \<open>
  \<open>run_full_analysis\<close> runs the stages in order; an exception in a stage ends the run.
  The report it prints is left out except for its last section, the recommendation,
  which is returned beside the analyzer. \<open>is_significant\<close> is computed right after
  the hypothesis test; the final \<open>is_significant and results['diff_ci'][0] > 0\<close> reads
  \<open>diff_ci\<close> only when \<open>is_significant\<close> holds, as Python's \<open>and\<close> does.
\<close>

definition and_then :: "'e + 'a \<Rightarrow> ('a \<Rightarrow> 'e + 'b) \<Rightarrow> 'e + 'b" where
  "and_then r f = (case r of Inl e \<Rightarrow> Inl e | Inr x \<Rightarrow> f x)"

definition lookup :: "'a option \<Rightarrow> pyerror + 'a" where
  "lookup v = (case v of None \<Rightarrow> Inl KeyError | Some x \<Rightarrow> Inr x)"

definition run_full_analysis :: "stats_lib \<Rightarrow> analyzer \<Rightarrow> pyerror + analyzer \<times> recommendation" where
  "run_full_analysis L a =
     and_then (calculate_basic_metrics a) (\<lambda>(a1, _).
     and_then (run_hypothesis_test L a1) (\<lambda>(a2, _).
     and_then (lookup (res_p_value (results a2))) (\<lambda>p_value.
     (let is_significant = flt p_value (alpha a2) in
     and_then (calculate_confidence_intervals L a2) (\<lambda>(a3, _).
     and_then (calculate_effect_size a3) (\<lambda>(a4, _).
     and_then (calculate_power L a4) (\<lambda>(a5, _).
     and_then (calculate_business_impact 100000 75 a5) (\<lambda>(a6, _).
       if is_significant
       then and_then (lookup (res_diff_ci (results a6))) (\<lambda>diff_ci.
              Inr (a6, if fgt (fst diff_ci) (Fin 0) then Proceed else InsufficientEvidence))
       else Inr (a6, InsufficientEvidence)))))))))"

text \<open>
  One run of the program from a generator state \<open>g\<close>, as \<open>main\<close> does it with the
  default configuration: construct the analyzer, then run the full analysis.
\<close>

definition analysis_run ::
  "'g np_random \<Rightarrow> stats_lib \<Rightarrow> 'g \<Rightarrow> npfloat \<Rightarrow> npfloat \<Rightarrow> int \<Rightarrow> npfloat \<Rightarrow>
     pyerror + analyzer \<times> recommendation" where
  "analysis_run R L g p_c p_t n al =
     (case fst (ABTestAnalyzer_init R g p_c p_t n al) of
        Inl e \<Rightarrow> Inl e
      | Inr a \<Rightarrow> run_full_analysis L a)"

text \<open>
  The first two stages of the pipeline, \<open>calculate_basic_metrics\<close> followed by
  \<open>run_hypothesis_test\<close> on the analyzer it leaves.
\<close>

definition metrics_then_test :: "stats_lib \<Rightarrow> analyzer \<Rightarrow> pyerror + analyzer \<times> (npfloat \<times> npfloat)" where
  "metrics_then_test L a = and_then (calculate_basic_metrics a) (run_hypothesis_test L \<circ> fst)"

text \<open>
  The first three stages of the pipeline: after them \<open>p_value\<close> and \<open>diff_ci\<close>, the two
  inputs of the recommendation, are in the results.
\<close>

definition stages_through_intervals ::
  "stats_lib \<Rightarrow> analyzer \<Rightarrow>
     pyerror + analyzer \<times> ((npfloat \<times> npfloat) \<times> (npfloat \<times> npfloat) \<times> (npfloat \<times> npfloat))" where
  "stages_through_intervals L a =
     and_then (metrics_then_test L a) (calculate_confidence_intervals L \<circ> fst)"

text \<open>
  What \<open>calculate_confidence_intervals\<close> produces: the exception, or the results
  mapping it leaves together with the three intervals it returns.
\<close>

definition ci_outcome ::
  "stats_lib \<Rightarrow> analyzer \<Rightarrow>
     pyerror + result_set \<times> ((npfloat \<times> npfloat) \<times> (npfloat \<times> npfloat) \<times> (npfloat \<times> npfloat))" where
  "ci_outcome L a =
     (case calculate_confidence_intervals L a of
        Inl e \<Rightarrow> Inl e
      | Inr (a', intervals) \<Rightarrow> Inr (results a', intervals))"

section \<open>The specification's formulas\<close>

text \<open>
  The formulas as the specification words them, over exact reals, for comparison with
  what the stages compute. \<open>empirical_rate\<close> is \<open>rate = successes / n\<close> of a cohort,
  and the relative lift in percent is \<open>(rate_t / rate_c - 1) * 100\<close>.
\<close>

definition empirical_rate :: "int list \<Rightarrow> real" where
  "empirical_rate xs = real_of_int (sum_list xs) / real (length xs)"


text \<open>
  The two-proportion z-test as the specification words it: the pooled proportion
  \<open>p = (s_c + s_t) / (n_c + n_t)\<close>, the pooled standard error
  \<open>sqrt (p * (1 - p) * (1/n_c + 1/n_t))\<close>, \<open>z = (rate_t - rate_c) / se\<close> and the
  two-tailed p-value \<open>2 * (1 - Phi |z|)\<close>.
\<close>

definition spec_pooled_se :: "int \<Rightarrow> nat \<Rightarrow> int \<Rightarrow> nat \<Rightarrow> real" where
  "spec_pooled_se s_c n_c s_t n_t =
     (let p = real_of_int (s_c + s_t) / real (n_c + n_t)
      in sqrt (p * (1 - p) * (1 / real n_c + 1 / real n_t)))"

definition spec_z_stat :: "real \<Rightarrow> real \<Rightarrow> real \<Rightarrow> real" where
  "spec_z_stat rate_t rate_c se = (rate_t - rate_c) / se"

definition spec_p_value :: "real \<Rightarrow> real" where
  "spec_p_value z = 2 * (1 - std_normal_cdf \<bar>z\<bar>)"

text \<open>
  An interval is symmetric about an estimate when both bounds are finite and
  \<open>lower = 2 * estimate - upper\<close>.
\<close>

definition symmetric_about :: "real \<Rightarrow> npfloat \<times> npfloat \<Rightarrow> bool" where
  "symmetric_about estimate interval =
     (case interval of (Fin lower, Fin upper) \<Rightarrow> lower = 2 * estimate - upper | _ \<Rightarrow> False)"

text \<open>
  Cohen's h and its category as the specification words them: \<open>|h| >= 0.5\<close> is Large,
  \<open>0.2 <= |h| < 0.5\<close> is Medium, \<open>|h| < 0.2\<close> is Small.
\<close>

definition cohens_h :: "real \<Rightarrow> real \<Rightarrow> real" where
  "cohens_h rate_t rate_c = 2 * (arcsin (sqrt rate_t) - arcsin (sqrt rate_c))"

definition spec_effect_category :: "real \<Rightarrow> effect_category" where
  "spec_effect_category h =
     (if 5 / 10 \<le> \<bar>h\<bar> then Large else if 2 / 10 \<le> \<bar>h\<bar> then Medium else Small)"



text \<open>A configured rate lies in \<open>[0, 1]\<close>; NaN and the infinities do not.\<close>

definition rate_in_unit_interval :: "npfloat \<Rightarrow> bool" where
  "rate_in_unit_interval p = (fge p (Fin 0) \<and> fle p (Fin 1))"

section \<open>Concrete instances\<close>

text \<open>
  Instances of the third-party records, for evaluating the model on concrete tables.
  The generator is a linear congruential one. The library instance returns the 0.975
  quantile for \<open>norm_ppf\<close> and NaN for the t-test and the power solver; as statsmodels
  does, its solver raises \<open>ValueError\<close> when asked for a sample size at effect size 0.
\<close>

definition example_rng :: "nat np_random" where
  "example_rng =
     \<lparr>seed = (\<lambda>s. s),
      bernoulli = (\<lambda>g p. (real ((1103515245 * g + 12345) mod 2147483648) < p * 2147483648,
                           (1103515245 * g + 12345) mod 2147483648))\<rparr>"

definition example_lib :: stats_lib where
  "example_lib =
     \<lparr>norm_ppf = (\<lambda>q. Fin (1959964 / 1000000)),
      ttest_ind = (\<lambda>xs ys. (NaN, NaN)),
      zt_ind_solve_power =
        (\<lambda>es nobs1 al pw. if es = Fin 0 \<and> nobs1 = None then Inl ValueError else Inr NaN)\<rparr>"

text \<open>
  An analyzer with the default configuration values for the rates and the significance
  level, holding the table of the given control and treatment outcomes.
\<close>

definition example_analyzer :: "int list \<Rightarrow> int list \<Rightarrow> analyzer" where
  "example_analyzer cs ts =
     \<lparr>control_rate = Fin (12 / 100), treatment_rate = Fin (145 / 1000),
      n_per_group = int (length cs), alpha = Fin (5 / 100),
      df = make_dataframe (int (length cs)) cs ts, results = empty_results\<rparr>"

text \<open>An analyzer whose results hold the two given rates and nothing else.\<close>

definition analyzer_with_rates :: "real \<Rightarrow> real \<Rightarrow> analyzer" where
  "analyzer_with_rates rate_c rate_t =
     (example_analyzer [] [])\<lparr>results := empty_results
        \<lparr>res_control_rate := Some (Fin rate_c), res_treatment_rate := Some (Fin rate_t)\<rparr>\<rparr>"


section \<open>Basic facts\<close>

text \<open>The definitions of the stages, for evaluating them on concrete inputs.\<close>

lemmas stage_defs =
  calculate_basic_metrics_def group_summary_def cohort_def loc_mean_def
  run_hypothesis_test_def calculate_confidence_intervals_def ci_def
  calculate_effect_size_def calculate_power_def proportion_effectsize_def
  calculate_business_impact_def fsub_def fgt_def fge_def Let_def

lemma fsub_Fin [simp]: "fsub (Fin x) (Fin y) = Fin (x - y)"
  by (simp add: fsub_def)

lemma symmetric_about_Fin [simp]:
  "symmetric_about e (Fin l, Fin u) \<longleftrightarrow> l = 2 * e - u"
  by (simp add: symmetric_about_def)

text \<open>The series that defines \<open>std_normal_cdf\<close> converges for every argument.\<close>

lemma std_normal_series_summable:
  "summable (\<lambda>n. (- 1) ^ n * x ^ (2 * n + 1) / (real (2 * n + 1) * 2 ^ n * fact n))"
proof (rule summable_comparison_test')
  show "summable (\<lambda>n. \<bar>x\<bar> * ((x\<^sup>2 / 2) ^ n /\<^sub>R fact n))"
    by (intro summable_mult summable_exp_generic)
next
  fix n :: nat
  have "norm ((- 1) ^ n * x ^ (2 * n + 1) / (real (2 * n + 1) * 2 ^ n * fact n))
          = \<bar>x\<bar> * (x\<^sup>2) ^ n / (real (2 * n + 1) * 2 ^ n * fact n)"
    by (simp add: abs_mult power_abs power_mult power_even_abs)
  also have "\<dots> \<le> \<bar>x\<bar> * (x\<^sup>2) ^ n / (1 * 2 ^ n * fact n)"
  proof (rule frac_le)
    show "0 \<le> \<bar>x\<bar> * (x\<^sup>2) ^ n" by simp
    show "\<bar>x\<bar> * (x\<^sup>2) ^ n \<le> \<bar>x\<bar> * (x\<^sup>2) ^ n" by simp
    show "(0 :: real) < 1 * 2 ^ n * fact n" by simp
    show "(1 :: real) * 2 ^ n * fact n \<le> real (2 * n + 1) * 2 ^ n * fact n"
      by simp
  qed
  also have "\<dots> = \<bar>x\<bar> * ((x\<^sup>2 / 2) ^ n /\<^sub>R fact n)"
    by (simp add: power_divide field_simps)
  finally show "norm ((- 1) ^ n * x ^ (2 * n + 1) / (real (2 * n + 1) * 2 ^ n * fact n))
          \<le> \<bar>x\<bar> * ((x\<^sup>2 / 2) ^ n /\<^sub>R fact n)" .
qed

lemma std_normal_cdf_0: "std_normal_cdf 0 = 1 / 2"
  by (simp add: std_normal_cdf_def)

text \<open>
  A lower bound on the distribution function at \<open>sqrt 6\<close>, from \<open>pi <= 16/5\<close> (Machin's
  formula) and the first eight terms of the alternating series.
\<close>

lemma arctan_le_self_nonneg:
  assumes "0 \<le> x" shows "arctan x \<le> x"
proof -
  have "arctan x - x \<le> arctan 0 - 0"
  proof (rule DERIV_nonpos_imp_nonincreasing[where f = "\<lambda>t. arctan t - t"])
    show "0 \<le> x" by fact
  next
    fix t :: real
    have "((\<lambda>t. arctan t - t) has_real_derivative (inverse (1 + t\<^sup>2) - 1)) (at t)"
      by (auto intro!: derivative_eq_intros)
    moreover have "inverse (1 + t\<^sup>2) - 1 \<le> 0"
      by (simp add: inverse_le_1_iff)
    ultimately show "\<exists>y. ((\<lambda>t. arctan t - t) has_real_derivative y) (at t) \<and> y \<le> 0"
      by blast
  qed
  then show ?thesis by simp
qed

lemma pi_le_16_5: "pi \<le> 16 / 5"
proof -
  have "arctan (1 / 5) \<le> 1 / 5"
    by (rule arctan_le_self_nonneg) simp
  moreover have "0 \<le> arctan (1 / 239)"
    by simp
  ultimately show ?thesis
    using machin by linarith
qed

lemma std_normal_cdf_sqrt_6: "39 / 40 < std_normal_cdf (sqrt 6)"
proof -
  define b :: "nat \<Rightarrow> real" where "b n = 3 ^ n / (real (2 * n + 1) * fact n)" for n
  have b_nonneg: "0 \<le> b n" for n
    by (simp add: b_def)
  have b_mono: "b (Suc n) \<le> b n" for n
  proof -
    have "(2 * n + 1) * 3 \<le> (2 * Suc n + 1) * Suc n"
      by (simp add: algebra_simps)
    then have "real (2 * n + 1) * 3 \<le> real (2 * Suc n + 1) * real (Suc n)"
      by (metis of_nat_le_iff of_nat_mult of_nat_numeral)
    then show ?thesis
      unfolding b_def
      by (simp add: field_simps del: of_nat_Suc of_nat_add of_nat_mult)
  qed
  have b_zero: "b \<longlonglongrightarrow> 0"
  proof (rule real_tendsto_sandwich[where f = "\<lambda>n. 0" and h = "\<lambda>n. inverse (fact n) * 3 ^ n"])
    show "\<forall>\<^sub>F n in sequentially. 0 \<le> b n"
      by (simp add: b_nonneg)
    show "\<forall>\<^sub>F n in sequentially. b n \<le> inverse (fact n) * 3 ^ n"
    proof (rule always_eventually, rule allI)
      fix n :: nat
      have "(3 :: real) ^ n / (real (2 * n + 1) * fact n) \<le> 3 ^ n / (1 * fact n)"
        by (rule frac_le) simp_all
      then show "b n \<le> inverse (fact n) * 3 ^ n"
        by (simp add: b_def field_simps)
    qed
    show "(\<lambda>n. 0 :: real) \<longlonglongrightarrow> 0"
      by simp
    show "(\<lambda>n. inverse (fact n) * 3 ^ n :: real) \<longlonglongrightarrow> 0"
      by (rule summable_LIMSEQ_zero[OF summable_exp])
  qed
  have tm: "(- 1) ^ n * sqrt 6 ^ (2 * n + 1) / (real (2 * n + 1) * 2 ^ n * fact n)
                = sqrt 6 * ((- 1) ^ n * b n)" for n
  proof -
    have "sqrt 6 ^ (2 * n + 1) = sqrt 6 * ((sqrt 6)\<^sup>2) ^ n"
      by (simp add: power_mult)
    also have "\<dots> = sqrt 6 * (2 ^ n * 3 ^ n)"
      by (simp add: power_mult_distrib[symmetric])
    finally show ?thesis
      by (simp add: b_def)
  qed
  have "(\<Sum>i<2 * 4. (- 1) ^ i * b i) \<le> (\<Sum>i. (- 1) ^ i * b i)"
    by (rule summable_Leibniz'(2)[of b, OF b_zero b_nonneg b_mono])
  moreover have "(\<Sum>i<2 * 4. (- 1) ^ i * b i) = 99501 / 200200"
    by (simp add: b_def lessThan_nat_numeral lessThan_Suc fact_numeral)
  ultimately have S: "99501 / 200200 \<le> (\<Sum>i. (- 1) ^ i * b i)"
    by simp
  have sm: "summable (\<lambda>i. (- 1) ^ i * b i)"
    by (rule summable_Leibniz'(1)[of b, OF b_zero b_nonneg b_mono])
  have cdf: "std_normal_cdf (sqrt 6) = 1 / 2 + sqrt 6 * (\<Sum>i. (- 1) ^ i * b i) / sqrt (2 * pi)"
    unfolding std_normal_cdf_def tm by (simp add: suminf_mult[OF sm])
  have "sqrt (15 / 16) \<le> sqrt (6 / (2 * pi))"
  proof (rule real_sqrt_le_mono)
    have "0 < pi" by simp
    with pi_le_16_5 show "15 / 16 \<le> 6 / (2 * pi)"
      by (simp add: field_simps)
  qed
  moreover have "24 / 25 \<le> sqrt (15 / 16)"
    by (rule real_le_rsqrt) (simp add: power2_eq_square)
  moreover have "sqrt 6 / sqrt (2 * pi) = sqrt (6 / (2 * pi))"
    by (simp only: real_sqrt_divide)
  ultimately have q: "24 / 25 \<le> sqrt 6 / sqrt (2 * pi)"
    by linarith
  have "24 / 25 * (99501 / 200200) \<le> sqrt 6 / sqrt (2 * pi) * (\<Sum>i. (- 1) ^ i * b i)"
    by (rule mult_mono[OF q S]) (use q in simp_all)
  then show ?thesis
    unfolding cdf by simp
qed

subsection \<open>What each stage leaves unchanged\<close>

lemma calculate_basic_metrics_frame:
  "calculate_basic_metrics a = Inr (a', s) \<Longrightarrow>
     alpha a' = alpha a \<and> df a' = df a \<and> n_per_group a' = n_per_group a"
  by (auto simp: calculate_basic_metrics_def Let_def split: sum.splits)

lemma run_hypothesis_test_frame:
  "run_hypothesis_test L a = Inr (a', zp) \<Longrightarrow>
     alpha a' = alpha a \<and> res_p_value (results a') = Some (snd zp)"
  by (auto simp: run_hypothesis_test_def Let_def split: if_splits option.splits)

lemma calculate_confidence_intervals_frame:
  "calculate_confidence_intervals L a = Inr (a', cs) \<Longrightarrow>
     alpha a' = alpha a \<and> res_p_value (results a') = res_p_value (results a)
     \<and> res_diff_ci (results a') = Some (snd (snd cs))"
  by (auto simp: calculate_confidence_intervals_def Let_def split: if_splits option.splits)

lemma calculate_effect_size_frame:
  "calculate_effect_size a = Inr (a', hc) \<Longrightarrow>
     alpha a' = alpha a \<and> res_p_value (results a') = res_p_value (results a)
     \<and> res_diff_ci (results a') = res_diff_ci (results a)"
  by (auto simp: calculate_effect_size_def Let_def split: if_splits option.splits)

lemma calculate_power_frame:
  "calculate_power L a = Inr (a', pw) \<Longrightarrow>
     alpha a' = alpha a \<and> res_p_value (results a') = res_p_value (results a)
     \<and> res_diff_ci (results a') = res_diff_ci (results a)"
  by (auto simp: calculate_power_def Let_def split: if_splits option.splits sum.splits)

lemma calculate_business_impact_frame:
  "calculate_business_impact mv aov a = Inr (a', rv) \<Longrightarrow>
     alpha a' = alpha a \<and> res_p_value (results a') = res_p_value (results a)
     \<and> res_diff_ci (results a') = res_diff_ci (results a)"
  by (auto simp: calculate_business_impact_def Let_def split: if_splits option.splits sum.splits)

subsection \<open>Cohorts and the group summary\<close>

lemma make_dataframe_1_1:
  "make_dataframe 1 [c] [t] =
     [\<lparr>user_id = 1, group_of = Control, converted = c\<rparr>,
      \<lparr>user_id = 2, group_of = Treatment, converted = t\<rparr>]"
  by (simp add: make_dataframe_def upto.simps)

lemma filter_zip_ids:
  "length ids = length ls \<Longrightarrow> length ls = length vs \<Longrightarrow>
     map (\<lambda>(i, l, v). v) (filter (\<lambda>(i, l, v). l = g) (zip ids (zip ls vs)))
       = map snd (filter (\<lambda>(l, v). l = g) (zip ls vs))"
  by (induction ids ls vs rule: list_induct3) auto

lemma filter_zip_replicate:
  "map snd (filter (\<lambda>(l, v). l = g) (zip (replicate n l0) vs))
     = (if l0 = g then take n vs else [])"
  by (induction n arbitrary: vs) (auto simp: zip_Cons1 take_Suc split: list.splits)

lemma cohort_make_dataframe:
  assumes "length cs = nat n" "length ts = nat n"
  shows "cohort g (make_dataframe n cs ts) = (case g of Control \<Rightarrow> cs | Treatment \<Rightarrow> ts)"
proof -
  let ?ls = "replicate (nat n) Control @ replicate (nat n) Treatment"
  have len: "length [1 .. 2 * n] = length ?ls" "length ?ls = length (cs @ ts)"
    using assms by auto
  have "cohort g (make_dataframe n cs ts)
          = map (\<lambda>(i, l, v). v) (filter (\<lambda>(i, l, v). l = g) (zip [1 .. 2 * n] (zip ?ls (cs @ ts))))"
    unfolding cohort_def make_dataframe_def filter_map map_map
    by (rule arg_cong2[where f = map]) (auto simp: fun_eq_iff comp_def intro!: filter_cong)
  also have "\<dots> = map snd (filter (\<lambda>(l, v). l = g) (zip ?ls (cs @ ts)))"
    by (rule filter_zip_ids[OF len])
  also have "zip ?ls (cs @ ts) = zip (replicate (nat n) Control) cs @ zip (replicate (nat n) Treatment) ts"
    using assms by simp
  also have "map snd (filter (\<lambda>(l, v). l = g) \<dots>) = (case g of Control \<Rightarrow> cs | Treatment \<Rightarrow> ts)"
    using assms by (cases g) (simp_all add: filter_zip_replicate)
  finally show ?thesis .
qed

lemma loc_mean_group_summary:
  assumes "cohort Control d \<noteq> []" "cohort Treatment d \<noteq> []"
  shows "loc_mean (group_summary d) g = Inr (Fin (empirical_rate (cohort g d)))"
  using assms by (cases g) (simp_all add: loc_mean_def group_summary_def empirical_rate_def)

lemma loc_mean_group_summary_missing:
  "cohort g d = [] \<Longrightarrow> loc_mean (group_summary d) g = Inl KeyError"
  by (cases g) (simp_all add: loc_mean_def group_summary_def)

lemma cohort_example_analyzer:
  "length ts = length cs \<Longrightarrow>
     cohort g (df (example_analyzer cs ts)) = (case g of Control \<Rightarrow> cs | Treatment \<Rightarrow> ts)"
  by (simp add: example_analyzer_def cohort_make_dataframe)

lemma analyzer_with_rates_results [simp]:
  "res_control_rate (results (analyzer_with_rates rate_c rate_t)) = Some (Fin rate_c)"
  "res_treatment_rate (results (analyzer_with_rates rate_c rate_t)) = Some (Fin rate_t)"
  by (simp_all add: analyzer_with_rates_def)

lemma sum_list_01:
  "set xs \<subseteq> {0, 1} \<Longrightarrow> 0 \<le> sum_list xs \<and> sum_list xs \<le> int (length xs)"
  by (induction xs) auto

subsection \<open>Generated data\<close>

text \<open>
  The constructor reseeds the generator, so for valid rates and a non-negative sample
  size the two cohorts are the first \<open>n\<close> draws from the seeded state and the \<open>n\<close> draws
  that follow them.
\<close>

lemma length_draws: "length (fst (draws R g p k)) = k"
proof (induction k arbitrary: g)
  case 0
  show ?case by simp
next
  case (Suc k)
  obtain b g' where b: "bernoulli R g p = (b, g')"
    by (cases "bernoulli R g p")
  obtain bs g'' where d: "draws R g' p k = (bs, g'')"
    by (cases "draws R g' p k")
  from Suc[of g'] d have "length bs = k"
    by simp
  then show ?case
    by (simp add: b d)
qed

lemma generated_cohorts:
  assumes "0 \<le> x_c" "x_c \<le> 1" "0 \<le> x_t" "x_t \<le> 1" "0 \<le> n"
  shows "\<exists>a g'. ABTestAnalyzer_init R g (Fin x_c) (Fin x_t) n al = (Inr a, g')
           \<and> cohort Control (df a) = fst (draws R (seed R 42) x_c (nat n))
           \<and> cohort Treatment (df a)
               = fst (draws R (snd (draws R (seed R 42) x_c (nat n))) x_t (nat n))"
proof -
  obtain cs g1 where c: "draws R (seed R 42) x_c (nat n) = (cs, g1)"
    by (cases "draws R (seed R 42) x_c (nat n)")
  obtain ts g2 where t: "draws R g1 x_t (nat n) = (ts, g2)"
    by (cases "draws R g1 x_t (nat n)")
  have l: "length cs = nat n" "length ts = nat n"
    using length_draws[of R "seed R 42" x_c "nat n"] length_draws[of R g1 x_t "nat n"]
    by (simp_all add: c t)
  show ?thesis
    using assms
    by (simp add: ABTestAnalyzer_init_def generate_data_def random_binomial1_def fge_def c t
          cohort_make_dataframe[OF l])
qed

text \<open>
  A probability of 0 or 1 leaves the generator no choice; with the example generator
  the cohorts are then constant.
\<close>

lemma draws_constant:
  assumes "\<And>g. fst (bernoulli R g p) = b"
  shows "fst (draws R g p k) = replicate k (of_bool b)"
proof (induction k arbitrary: g)
  case 0
  show ?case by simp
next
  case (Suc k)
  obtain g' where b: "bernoulli R g p = (b, g')"
    using assms[of g] by (cases "bernoulli R g p") simp
  obtain bs g'' where d: "draws R g' p k = (bs, g'')"
    by (cases "draws R g' p k")
  from Suc[of g'] d have "bs = replicate k (of_bool b)"
    by simp
  then show ?case
    by (simp add: b d)
qed

lemma example_rng_draws_certain:
  assumes "u = 0 \<or> u = 1"
  shows "fst (draws example_rng g (real_of_int u) k) = replicate k u"
proof -
  have "fst (bernoulli example_rng h (real_of_int u)) = (u = 1)" for h
  proof -
    have "(1103515245 * h + 12345) mod 2147483648 < (2147483648 :: nat)"
      by simp
    then have "real ((1103515245 * h + 12345) mod 2147483648) < real 2147483648"
      by (rule of_nat_less_iff[THEN iffD2])
    then have "real ((1103515245 * h + 12345) mod 2147483648) < 2147483648"
      by (simp only: of_nat_numeral)
    then show ?thesis
      using assms by (auto simp: example_rng_def)
  qed
  from draws_constant[of example_rng "real_of_int u" "u = 1", OF this]
  show ?thesis
    using assms by auto
qed

lemma example_rng_cohorts:
  assumes "u = 0 \<or> u = 1" and "v = 0 \<or> v = 1" and "0 \<le> n"
  shows "\<exists>a. fst (ABTestAnalyzer_init example_rng g (Fin (real_of_int u)) (Fin (real_of_int v)) n al)
               = Inr a
           \<and> cohort Control (df a) = replicate (nat n) u
           \<and> cohort Treatment (df a) = replicate (nat n) v"
proof -
  have "0 \<le> real_of_int u" "real_of_int u \<le> 1" "0 \<le> real_of_int v" "real_of_int v \<le> 1"
    using assms(1,2) by auto
  from generated_cohorts[OF this assms(3), of example_rng g al]
  show ?thesis
    by (auto simp only: example_rng_draws_certain[OF assms(1)]
          example_rng_draws_certain[OF assms(2)] fst_conv)
qed

section \<open>The recommendation\<close>

text \<open>
  C1 states the decision rule for every run in which the earlier stages have populated
  \<open>p_value\<close> and \<open>diff_ci\<close>, with "insufficient evidence" in every case other than
  "proceed". A run can populate both and still give no recommendation: the stages that
  follow the intervals can raise. With two users per group and one conversion in each,
  the first three stages return with \<open>p_value = 1\<close> and \<open>diff_ci = (-0.98, 0.98)\<close>; the
  effect size is 0, the power solver raises \<open>ValueError\<close> when asked for the sample size,
  and the run ends with that exception.
\<close>

theorem recommendation_counterexample:
  "(case stages_through_intervals example_lib (example_analyzer [1, 0] [1, 0]) of
      Inl e \<Rightarrow> False
    | Inr (a3, intervals) \<Rightarrow>
        res_p_value (results a3) = Some (Fin 1)
        \<and> res_diff_ci (results a3) = Some (Fin (- (49 / 50)), Fin (49 / 50)))
   \<and> run_full_analysis example_lib (example_analyzer [1, 0] [1, 0]) = Inl ValueError"
proof -
  have c: "cohort g (df (example_analyzer [1, 0] [1, 0])) = [1, 0]" for g
    by (cases g) (simp_all add: cohort_example_analyzer)
  have n: "n_per_group (example_analyzer [1, 0] [1, 0]) = 2"
    "results (example_analyzer [1, 0] [1, 0]) = empty_results"
    "alpha (example_analyzer [1, 0] [1, 0]) = Fin (5 / 100)"
    by (simp_all add: example_analyzer_def)
  have r: "- 1 \<le> 1 / sqrt 2" "1 / sqrt 2 \<le> 1"
  proof -
    have "0 \<le> 1 / sqrt 2" by simp
    then show "- 1 \<le> 1 / sqrt 2" by linarith
    have "1 \<le> sqrt 2" by simp
    then show "1 / sqrt 2 \<le> 1" by simp
  qed
  show ?thesis
    using r
    by (simp add: stages_through_intervals_def metrics_then_test_def run_full_analysis_def
          and_then_def lookup_def calculate_basic_metrics_def group_summary_def loc_mean_def
          run_hypothesis_test_def calculate_confidence_intervals_def ci_def
          calculate_effect_size_def calculate_power_def proportion_effectsize_def
          calculate_business_impact_def fgt_def fge_def Let_def c n empty_results_def
          example_lib_def std_normal_cdf_0 real_sqrt_divide)
qed

text \<open>
  C1 as amended. A run of \<open>run_full_analysis\<close> returns a recommendation exactly when its
  six stages return, each on the analyzer left by the one before. The recommendation
  is then "proceed" if the p-value returned by the hypothesis test is strictly below
  \<open>alpha\<close> and the lower bound of the difference interval returned by
  \<open>calculate_confidence_intervals\<close> is strictly above 0, and "insufficient evidence" in
  every other case; both values are the ones the final results hold. A run in which a
  stage raises gives no recommendation.
\<close>

theorem recommendation_rule:
  "run_full_analysis L a = Inr (a', r) \<longleftrightarrow>
     (\<exists>a1 s1 a2 z p a3 control_ci treatment_ci lo hi a4 hc a5 pw rv.
        calculate_basic_metrics a = Inr (a1, s1)
        \<and> run_hypothesis_test L a1 = Inr (a2, (z, p))
        \<and> calculate_confidence_intervals L a2 = Inr (a3, (control_ci, treatment_ci, (lo, hi)))
        \<and> calculate_effect_size a3 = Inr (a4, hc)
        \<and> calculate_power L a4 = Inr (a5, pw)
        \<and> calculate_business_impact 100000 75 a5 = Inr (a', rv)
        \<and> res_p_value (results a') = Some p
        \<and> res_diff_ci (results a') = Some (lo, hi)
        \<and> r = (if flt p (alpha a) \<and> fgt lo (Fin 0) then Proceed else InsufficientEvidence))"
  (is "?run \<longleftrightarrow> ?chain")
proof
  assume run: ?run
  then obtain a1 s1 a2 zp a3 cs a4 hc a5 pw a6 rv where
    s1: "calculate_basic_metrics a = Inr (a1, s1)" and
    s2: "run_hypothesis_test L a1 = Inr (a2, zp)" and
    s3: "calculate_confidence_intervals L a2 = Inr (a3, cs)" and
    s4: "calculate_effect_size a3 = Inr (a4, hc)" and
    s5: "calculate_power L a4 = Inr (a5, pw)" and
    s6: "calculate_business_impact 100000 75 a5 = Inr (a6, rv)"
    by (auto simp: run_full_analysis_def and_then_def lookup_def Let_def
             split: sum.splits option.splits prod.splits if_splits)
  note f = calculate_basic_metrics_frame[OF s1] run_hypothesis_test_frame[OF s2]
    calculate_confidence_intervals_frame[OF s3] calculate_effect_size_frame[OF s4]
    calculate_power_frame[OF s5] calculate_business_impact_frame[OF s6]
  have p: "res_p_value (results a6) = Some (snd zp)"
    and p2: "res_p_value (results a2) = Some (snd zp)"
    and d: "res_diff_ci (results a6) = Some (snd (snd cs))"
    and al: "alpha a2 = alpha a"
    using f by simp_all
  from run s1 s2 s3 s4 s5 s6 p2 d al
  have r: "a' = a6 \<and> r = (if flt (snd zp) (alpha a) \<and> fgt (fst (snd (snd cs))) (Fin 0)
                         then Proceed else InsufficientEvidence)"
    by (auto simp: run_full_analysis_def and_then_def lookup_def Let_def split: if_splits)
  obtain z pv where zp: "zp = (z, pv)" by (cases zp)
  obtain cc tc lo hi where cs: "cs = (cc, tc, (lo, hi))" by (cases cs) auto
  show ?chain
    using s1 s2 s3 s4 s5 s6 p d r unfolding zp cs by auto
next
  assume ?chain
  then obtain a1 s1 a2 z p a3 cc tc lo hi a4 hc a5 pw rv where
    s1: "calculate_basic_metrics a = Inr (a1, s1)" and
    s2: "run_hypothesis_test L a1 = Inr (a2, (z, p))" and
    s3: "calculate_confidence_intervals L a2 = Inr (a3, (cc, tc, (lo, hi)))" and
    s4: "calculate_effect_size a3 = Inr (a4, hc)" and
    s5: "calculate_power L a4 = Inr (a5, pw)" and
    s6: "calculate_business_impact 100000 75 a5 = Inr (a', rv)" and
    r: "r = (if flt p (alpha a) \<and> fgt lo (Fin 0) then Proceed else InsufficientEvidence)"
    by blast
  note f = calculate_basic_metrics_frame[OF s1] run_hypothesis_test_frame[OF s2]
    calculate_confidence_intervals_frame[OF s3] calculate_effect_size_frame[OF s4]
    calculate_power_frame[OF s5] calculate_business_impact_frame[OF s6]
  have p2: "res_p_value (results a2) = Some p"
    and d: "res_diff_ci (results a') = Some (lo, hi)"
    and al: "alpha a2 = alpha a"
    using f by simp_all
  show ?run
    using s1 s2 s3 s4 s5 s6 p2 d al r
    by (simp add: run_full_analysis_def and_then_def lookup_def Let_def)
qed

text \<open>
  Two completed runs. With three users per group, no conversion in control and three in
  treatment, \<open>z = sqrt 6\<close>, the p-value is below 0.05 and the difference interval is
  \<open>[1, 1]\<close>: the recommendation is "proceed". With one user per group, the control user
  converted and the treatment user not, the difference interval is \<open>[-1, -1]\<close> and the
  recommendation is "insufficient evidence".
\<close>

lemma run_proceed:
  "\<exists>a'. run_full_analysis example_lib (example_analyzer [0, 0, 0] [1, 1, 1]) = Inr (a', Proceed)
          \<and> res_diff_ci (results a') = Some (Fin 1, Fin 1)"
proof -
  have c: "cohort Control (df (example_analyzer [0, 0, 0] [1, 1, 1])) = [0, 0, 0]"
    "cohort Treatment (df (example_analyzer [0, 0, 0] [1, 1, 1])) = [1, 1, 1]"
    by (simp_all add: cohort_example_analyzer)
  have n: "n_per_group (example_analyzer [0, 0, 0] [1, 1, 1]) = 3"
    "results (example_analyzer [0, 0, 0] [1, 1, 1]) = empty_results"
    "alpha (example_analyzer [0, 0, 0] [1, 1, 1]) = Fin (5 / 100)"
    by (simp_all add: example_analyzer_def)
  have "1 / sqrt (1 / 6) = sqrt 6"
    by (simp add: real_sqrt_divide)
  with std_normal_cdf_sqrt_6 have "39 < 40 * std_normal_cdf (1 / sqrt (1 / 6))"
    by simp
  then show ?thesis
    apply (simp add: run_full_analysis_def
          and_then_def lookup_def calculate_basic_metrics_def group_summary_def loc_mean_def
          run_hypothesis_test_def calculate_confidence_intervals_def ci_def
          calculate_effect_size_def calculate_power_def proportion_effectsize_def
          calculate_business_impact_def fgt_def fge_def Let_def c n empty_results_def
          example_lib_def)
    done
qed

lemma run_insufficient:
  "\<exists>a'. run_full_analysis example_lib (example_analyzer [1] [0]) = Inr (a', InsufficientEvidence)
          \<and> res_diff_ci (results a') = Some (Fin (- 1), Fin (- 1))"
proof -
  have pi5: "\<not> pi * 5 < 1" and pi2: "\<not> pi * 2 < 1"
    using pi_ge_two by simp_all
  show ?thesis
    by (simp add: example_analyzer_def make_dataframe_1_1 run_full_analysis_def and_then_def
          lookup_def stage_defs empty_results_def example_lib_def pi5 pi2)
qed

theorem recommendation_rule_witness:
  "(\<exists>a' p. run_full_analysis example_lib (example_analyzer [0, 0, 0] [1, 1, 1]) = Inr (a', Proceed)
       \<and> res_p_value (results a') = Some p
       \<and> res_diff_ci (results a') = Some (Fin 1, Fin 1)
       \<and> flt p (Fin (5 / 100)) \<and> fgt (Fin 1) (Fin 0))
   \<and> (\<exists>a' p. run_full_analysis example_lib (example_analyzer [1] [0])
                 = Inr (a', InsufficientEvidence)
       \<and> res_p_value (results a') = Some p
       \<and> res_diff_ci (results a') = Some (Fin (- 1), Fin (- 1))
       \<and> \<not> (flt p (Fin (5 / 100)) \<and> fgt (Fin (- 1)) (Fin 0)))"
proof
  from run_proceed obtain a' where
    run: "run_full_analysis example_lib (example_analyzer [0, 0, 0] [1, 1, 1]) = Inr (a', Proceed)"
    and d: "res_diff_ci (results a') = Some (Fin 1, Fin 1)"
    by blast
  from recommendation_rule[THEN iffD1, OF run] d obtain p where
    "res_p_value (results a') = Some p"
    "Proceed = (if flt p (alpha (example_analyzer [0, 0, 0] [1, 1, 1])) \<and> fgt (Fin 1) (Fin 0)
                then Proceed else InsufficientEvidence)"
    by auto
  then have "res_p_value (results a') = Some p \<and> flt p (Fin (5 / 100)) \<and> fgt (Fin 1) (Fin 0)"
    by (simp add: example_analyzer_def split: if_splits)
  with run d show "\<exists>a' p. run_full_analysis example_lib (example_analyzer [0, 0, 0] [1, 1, 1])
                     = Inr (a', Proceed)
       \<and> res_p_value (results a') = Some p
       \<and> res_diff_ci (results a') = Some (Fin 1, Fin 1)
       \<and> flt p (Fin (5 / 100)) \<and> fgt (Fin 1) (Fin 0)"
    by blast
next
  from run_insufficient obtain a' where
    run: "run_full_analysis example_lib (example_analyzer [1] [0]) = Inr (a', InsufficientEvidence)"
    and d: "res_diff_ci (results a') = Some (Fin (- 1), Fin (- 1))"
    by blast
  from recommendation_rule[THEN iffD1, OF run] d obtain p where
    "res_p_value (results a') = Some p"
    "InsufficientEvidence = (if flt p (alpha (example_analyzer [1] [0])) \<and> fgt (Fin (- 1)) (Fin 0)
                then Proceed else InsufficientEvidence)"
    by auto
  then have "res_p_value (results a') = Some p
      \<and> \<not> (flt p (Fin (5 / 100)) \<and> fgt (Fin (- 1)) (Fin 0))"
    by (simp add: example_analyzer_def fgt_def split: if_splits)
  with run d show "\<exists>a' p. run_full_analysis example_lib (example_analyzer [1] [0])
                 = Inr (a', InsufficientEvidence)
       \<and> res_p_value (results a') = Some p
       \<and> res_diff_ci (results a') = Some (Fin (- 1), Fin (- 1))
       \<and> \<not> (flt p (Fin (5 / 100)) \<and> fgt (Fin (- 1)) (Fin 0))"
    by blast
qed

section \<open>Degenerate statistics\<close>

text \<open>
  C2 states that a degenerate statistic surfaces as an error or as an "undefined"
  indicator and is not propagated silently as NaN or Inf. The stages do the opposite.
  An analyzer constructed with control rate 0, treatment rate 1 and two users per group
  has no conversion in the control cohort: \<open>calculate_basic_metrics\<close> returns, and the
  relative lift it stores is \<open>+inf\<close>. With both rates 0 it stores NaN. With both rates 1
  all outcomes are identical and the pooled standard error is zero: the first two stages
  return, and the z-statistic and the p-value are NaN.
\<close>

theorem degenerate_counterexample:
  "map_sum id (res_relative_lift \<circ> results \<circ> fst)
     (and_then (fst (ABTestAnalyzer_init example_rng 7 (Fin 0) (Fin 1) 2 (Fin (5 / 100))))
        calculate_basic_metrics) = Inr (Some PInf)
   \<and> map_sum id (res_relative_lift \<circ> results \<circ> fst)
     (and_then (fst (ABTestAnalyzer_init example_rng 7 (Fin 0) (Fin 0) 2 (Fin (5 / 100))))
        calculate_basic_metrics) = Inr (Some NaN)
   \<and> map_sum id snd
     (and_then (fst (ABTestAnalyzer_init example_rng 7 (Fin 1) (Fin 1) 2 (Fin (5 / 100))))
        (metrics_then_test example_lib)) = Inr (NaN, NaN)"
proof -
  obtain a where a: "fst (ABTestAnalyzer_init example_rng 7 (Fin 0) (Fin 1) 2 (Fin (5 / 100))) = Inr a"
    "cohort Control (df a) = [0, 0]" "cohort Treatment (df a) = [1, 1]"
    using example_rng_cohorts[of 0 1 2 7 "Fin (5 / 100)"] by (auto simp: numeral_2_eq_2)
  obtain b where b: "fst (ABTestAnalyzer_init example_rng 7 (Fin 0) (Fin 0) 2 (Fin (5 / 100))) = Inr b"
    "cohort Control (df b) = [0, 0]" "cohort Treatment (df b) = [0, 0]"
    using example_rng_cohorts[of 0 0 2 7 "Fin (5 / 100)"] by (auto simp: numeral_2_eq_2)
  obtain c where c: "fst (ABTestAnalyzer_init example_rng 7 (Fin 1) (Fin 1) 2 (Fin (5 / 100))) = Inr c"
    "cohort Control (df c) = [1, 1]" "cohort Treatment (df c) = [1, 1]"
    using example_rng_cohorts[of 1 1 2 7 "Fin (5 / 100)"] by (auto simp: numeral_2_eq_2)
  have 1: "map_sum id (res_relative_lift \<circ> results \<circ> fst) (calculate_basic_metrics a) = Inr (Some PInf)"
    by (simp add: calculate_basic_metrics_def Let_def loc_mean_group_summary a empirical_rate_def
          fsub_def)
  have 2: "map_sum id (res_relative_lift \<circ> results \<circ> fst) (calculate_basic_metrics b) = Inr (Some NaN)"
    by (simp add: calculate_basic_metrics_def Let_def loc_mean_group_summary b empirical_rate_def
          fsub_def)
  have 3: "map_sum id snd (metrics_then_test example_lib c) = Inr (NaN, NaN)"
    by (simp add: metrics_then_test_def and_then_def calculate_basic_metrics_def Let_def
          loc_mean_group_summary c empirical_rate_def run_hypothesis_test_def fsub_def)
  show ?thesis
    using a(1) b(1) c(1) 1 2 3 by (simp add: and_then_def)
qed

text \<open>
  C2 as amended. For non-empty cohorts of 0/1 outcomes the stages raise nothing and
  attach no indicator to a degenerate metric. When no control user converted (control
  rate zero), \<open>calculate_basic_metrics\<close> returns and stores the relative lift \<open>+inf\<close>
  if some treatment user converted and NaN otherwise. When all outcomes of both groups
  are identical (all 0 or all 1), the first two stages return, and the z-statistic and
  the p-value are NaN.
\<close>

theorem degenerate_statistics:
  fixes a :: analyzer
  defines "cs \<equiv> cohort Control (df a)" and "ts \<equiv> cohort Treatment (df a)"
  assumes "cs \<noteq> []" and "ts \<noteq> []" and "set cs \<subseteq> {0, 1}" and "set ts \<subseteq> {0, 1}"
  shows "(sum_list cs = 0 \<longrightarrow>
            (\<exists>a' s. calculate_basic_metrics a = Inr (a', s)
               \<and> res_relative_lift (results a') = Some (if 0 < sum_list ts then PInf else NaN)))
       \<and> (sum_list cs + sum_list ts = 0 \<or> sum_list cs + sum_list ts = int (length cs + length ts) \<longrightarrow>
            (\<exists>a2. metrics_then_test L a = Inr (a2, (NaN, NaN))
               \<and> res_z_stat (results a2) = Some NaN
               \<and> res_p_value (results a2) = Some NaN))"
proof (intro conjI impI)
  have bc: "0 \<le> sum_list cs" "sum_list cs \<le> int (length cs)"
    and bt: "0 \<le> sum_list ts" "sum_list ts \<le> int (length ts)"
    using sum_list_01[OF assms(5)] sum_list_01[OF assms(6)] by simp_all
  obtain a1 s where
    m: "calculate_basic_metrics a = Inr (a1, s)"
    and rc: "res_control_rate (results a1) = Some (Fin (empirical_rate cs))"
    and rt: "res_treatment_rate (results a1) = Some (Fin (empirical_rate ts))"
    and rl: "res_relative_lift (results a1)
               = Some (fmul (fsub (fdiv (Fin (empirical_rate ts)) (Fin (empirical_rate cs))) (Fin 1)) (Fin 100))"
    using assms(3,4)
    by (simp add: calculate_basic_metrics_def Let_def loc_mean_group_summary cs_def ts_def)
  have d: "df a1 = df a"
    using calculate_basic_metrics_frame[OF m] by simp
  {
    assume z: "sum_list cs = 0"
    have "empirical_rate cs = 0"
      using z by (simp add: empirical_rate_def)
    moreover have "0 < empirical_rate ts \<longleftrightarrow> 0 < sum_list ts"
      using assms(4) by (simp add: empirical_rate_def zero_less_divide_iff)
    moreover have "empirical_rate ts = 0 \<longleftrightarrow> \<not> 0 < sum_list ts"
      using assms(4) bt by (auto simp: empirical_rate_def)
    ultimately have "fmul (fsub (fdiv (Fin (empirical_rate ts)) (Fin (empirical_rate cs))) (Fin 1)) (Fin 100)
        = (if 0 < sum_list ts then PInf else NaN)"
      by (simp add: fsub_def)
    with m rl
    show "\<exists>a' s. calculate_basic_metrics a = Inr (a', s)
            \<and> res_relative_lift (results a') = Some (if 0 < sum_list ts then PInf else NaN)"
      by auto
  }
  {
    assume "sum_list cs + sum_list ts = 0 \<or> sum_list cs + sum_list ts = int (length cs + length ts)"
    then consider (zero) "sum_list cs = 0" "sum_list ts = 0"
      | (one) "sum_list cs = int (length cs)" "sum_list ts = int (length ts)"
      using bc bt by fastforce
    then have ident: "empirical_rate ts = empirical_rate cs"
      using assms(3,4) by cases (simp_all add: empirical_rate_def)
    have tot: "sum_list cs + sum_list ts = 0 \<or> sum_list cs + sum_list ts = int (length cs + length ts)"
      by fact
    have "0 < length cs + length ts"
      using assms(3) by simp
    then have pos: "real (length cs + length ts) \<noteq> 0"
      by (simp only: of_nat_eq_0_iff)
    have pooled: "real_of_int (sum_list cs + sum_list ts) / real (length cs + length ts) = 0
                 \<or> real_of_int (sum_list cs + sum_list ts) / real (length cs + length ts) = 1"
    proof (rule disjE[OF tot])
      assume "sum_list cs + sum_list ts = 0"
      then show ?thesis by (simp only: of_int_0 div_0 simp_thms)
    next
      assume e: "sum_list cs + sum_list ts = int (length cs + length ts)"
      have "real_of_int (int (length cs + length ts)) / real (length cs + length ts) = 1"
        unfolding of_int_of_nat_eq by (rule divide_self[OF pos])
      then show ?thesis unfolding e by (rule disjI2)
    qed
    define p where "p = real_of_int (sum_list cs + sum_list ts) / real (length cs + length ts)"
    define w where "w = 1 / real (length cs) + 1 / real (length ts)"
    note len = pos
    have pp: "fdiv (Fin (real_of_int (sum_list cs + sum_list ts))) (Fin (real (length cs + length ts))) = Fin p"
      using len unfolding p_def by (simp only: fdiv.simps if_False)
    have se: "fsqrt (fmul (fmul (Fin p) (fsub (Fin 1) (Fin p))) (Fin w)) = Fin 0"
      using pooled unfolding p_def[symmetric] by auto
    have "run_hypothesis_test L a1
            = Inr (a1\<lparr>results := (results a1)
                       \<lparr>res_z_stat := Some NaN, res_p_value := Some NaN,
                        res_t_stat := Some (fst (ttest_ind L ts cs)),
                        res_t_pvalue := Some (snd (ttest_ind L ts cs))\<rparr>\<rparr>, (NaN, NaN))"
      unfolding run_hypothesis_test_def Let_def d cs_def[symmetric] ts_def[symmetric]
        pp w_def[symmetric] se rc rt
      using assms(3,4) by (simp add: ident fsub_def)
    with m
    show "\<exists>a2. metrics_then_test L a = Inr (a2, (NaN, NaN))
            \<and> res_z_stat (results a2) = Some NaN
            \<and> res_p_value (results a2) = Some NaN"
      by (simp add: metrics_then_test_def and_then_def)
  }
qed

text \<open>
  Control \<open>[0, 0]\<close> against treatment \<open>[1, 0]\<close> for the relative lift, and four users who
  all converted for the z-test.
\<close>

theorem degenerate_statistics_witness:
  "cohort Control (df (example_analyzer [0, 0] [1, 0])) = [0, 0]
   \<and> cohort Treatment (df (example_analyzer [0, 0] [1, 0])) = [1, 0]
   \<and> sum_list [0, 0 :: int] = 0
   \<and> (\<exists>a' s. calculate_basic_metrics (example_analyzer [0, 0] [1, 0]) = Inr (a', s)
         \<and> res_relative_lift (results a') = Some PInf)
   \<and> cohort Control (df (example_analyzer [1, 1] [1, 1])) = [1, 1]
   \<and> cohort Treatment (df (example_analyzer [1, 1] [1, 1])) = [1, 1]
   \<and> sum_list [1, 1 :: int] + sum_list [1, 1 :: int] = int (length [1, 1 :: int] + length [1, 1 :: int])
   \<and> (\<exists>a2. metrics_then_test example_lib (example_analyzer [1, 1] [1, 1]) = Inr (a2, (NaN, NaN))
         \<and> res_z_stat (results a2) = Some NaN
         \<and> res_p_value (results a2) = Some NaN)"
  using degenerate_statistics[of "example_analyzer [0, 0] [1, 0]" example_lib]
    degenerate_statistics[of "example_analyzer [1, 1] [1, 1]" example_lib]
  by (simp add: cohort_example_analyzer)

section \<open>Invalid configurations\<close>

text \<open>
  C3 states that a configuration with a rate outside \<open>[0, 1]\<close> or a non-positive
  sample size is rejected before data generation. The constructor checks nothing:
  with \<open>n_per_group = 0\<close> and the default rates it returns an analyzer with an empty
  table. And a configuration with a valid control rate and the treatment rate 1.5 does
  reach data generation: the error comes after the control cohort has been drawn, the
  generator having moved on from its seeded state 42.
\<close>

theorem invalid_configuration_counterexample:
  "fst (ABTestAnalyzer_init example_rng 7 (Fin (12 / 100)) (Fin (145 / 1000)) 0 (Fin (5 / 100)))
     = Inr \<lparr>control_rate = Fin (12 / 100), treatment_rate = Fin (145 / 1000), n_per_group = 0,
            alpha = Fin (5 / 100), df = [], results = empty_results\<rparr>
   \<and> ABTestAnalyzer_init example_rng 7 (Fin (1 / 2)) (Fin (3 / 2)) 1 (Fin (5 / 100))
       = (Inl ValueError, 1250496027)
   \<and> seed example_rng 42 = 42"
  by (simp add: ABTestAnalyzer_init_def generate_data_def random_binomial1_def fge_def
        make_dataframe_def example_rng_def)

text \<open>
  C3 as amended. For every configuration with a rate outside \<open>[0, 1]\<close> (NaN included)
  or a negative \<open>n_per_group\<close>, the constructor fails with the \<open>ValueError\<close> that the
  binomial sampler raises during data generation, so no analysis stage runs. With valid
  rates, \<open>n_per_group = 0\<close> is accepted: the constructor returns an analyzer with an
  empty table.
\<close>

theorem invalid_configuration:
  "(\<not> rate_in_unit_interval p_c \<or> \<not> rate_in_unit_interval p_t \<or> n < 0 \<longrightarrow>
      fst (ABTestAnalyzer_init R g p_c p_t n al) = Inl ValueError
      \<and> analysis_run R L g p_c p_t n al = Inl ValueError)
   \<and> (rate_in_unit_interval p_c \<and> rate_in_unit_interval p_t \<longrightarrow>
      fst (ABTestAnalyzer_init R g p_c p_t 0 al)
        = Inr \<lparr>control_rate = p_c, treatment_rate = p_t, n_per_group = 0, alpha = al,
               df = [], results = empty_results\<rparr>)"
  by (auto simp: ABTestAnalyzer_init_def analysis_run_def generate_data_def random_binomial1_def
        rate_in_unit_interval_def make_dataframe_def fge_def
        split: prod.splits sum.splits npfloat.splits)

text \<open>
  A control rate of 1.5, a NaN treatment rate and a sample size of -1 are each rejected
  with \<open>ValueError\<close>; the default rates with sample size 0 are accepted.
\<close>

theorem invalid_configuration_witness:
  "\<not> rate_in_unit_interval (Fin (3 / 2)) \<and> \<not> rate_in_unit_interval NaN
   \<and> rate_in_unit_interval (Fin (12 / 100)) \<and> rate_in_unit_interval (Fin (145 / 1000))
   \<and> fst (ABTestAnalyzer_init example_rng 7 (Fin (3 / 2)) (Fin (145 / 1000)) 5000 (Fin (5 / 100)))
       = Inl ValueError
   \<and> analysis_run example_rng example_lib 7 (Fin (3 / 2)) (Fin (145 / 1000)) 5000 (Fin (5 / 100))
       = Inl ValueError
   \<and> fst (ABTestAnalyzer_init example_rng 7 (Fin (12 / 100)) NaN 5000 (Fin (5 / 100)))
       = Inl ValueError
   \<and> fst (ABTestAnalyzer_init example_rng 7 (Fin (12 / 100)) (Fin (145 / 1000)) (- 1) (Fin (5 / 100)))
       = Inl ValueError
   \<and> fst (ABTestAnalyzer_init example_rng 7 (Fin (12 / 100)) (Fin (145 / 1000)) 0 (Fin (5 / 100)))
       = Inr \<lparr>control_rate = Fin (12 / 100), treatment_rate = Fin (145 / 1000), n_per_group = 0,
              alpha = Fin (5 / 100), df = [], results = empty_results\<rparr>"
proof -
  have r: "\<not> rate_in_unit_interval (Fin (3 / 2))" "\<not> rate_in_unit_interval NaN"
    "rate_in_unit_interval (Fin (12 / 100))" "rate_in_unit_interval (Fin (145 / 1000))"
    by (simp_all add: rate_in_unit_interval_def fge_def)
  show ?thesis
    using r
      invalid_configuration[of "Fin (3 / 2)" "Fin (145 / 1000)" 5000 example_rng 7 "Fin (5 / 100)" example_lib]
      invalid_configuration[of "Fin (12 / 100)" NaN 5000 example_rng 7 "Fin (5 / 100)" example_lib]
      invalid_configuration[of "Fin (12 / 100)" "Fin (145 / 1000)" "- 1" example_rng 7 "Fin (5 / 100)" example_lib]
    by simp
qed

section \<open>Effect size\<close>

text \<open>
  C4. With rates in \<open>[0, 1]\<close> in the results, \<open>calculate_effect_size\<close> returns and
  stores Cohen's h, \<open>2 * (arcsin (sqrt rate_t) - arcsin (sqrt rate_c))\<close>, and the
  category of \<open>|h|\<close>: Small below 0.2, Medium from 0.2 up to but excluding 0.5, Large
  from 0.5 on. A boundary belongs to the higher category: \<open>|h| = 0.2\<close> is Medium and
  \<open>|h| = 0.5\<close> is Large.
\<close>

theorem effect_size_category:
  assumes "res_control_rate (results a) = Some (Fin rate_c)"
    and "res_treatment_rate (results a) = Some (Fin rate_t)"
    and "0 \<le> rate_c" "rate_c \<le> 1" "0 \<le> rate_t" "rate_t \<le> 1"
  shows "\<exists>a' c. calculate_effect_size a = Inr (a', (Fin (cohens_h rate_t rate_c), c))
         \<and> res_cohens_h (results a') = Some (Fin (cohens_h rate_t rate_c))
         \<and> res_effect_category (results a') = Some c
         \<and> c = spec_effect_category (cohens_h rate_t rate_c)
         \<and> (\<bar>cohens_h rate_t rate_c\<bar> < 2 / 10 \<longrightarrow> c = Small)
         \<and> (2 / 10 \<le> \<bar>cohens_h rate_t rate_c\<bar> \<and> \<bar>cohens_h rate_t rate_c\<bar> < 5 / 10 \<longrightarrow> c = Medium)
         \<and> (5 / 10 \<le> \<bar>cohens_h rate_t rate_c\<bar> \<longrightarrow> c = Large)
         \<and> (\<bar>cohens_h rate_t rate_c\<bar> = 2 / 10 \<longrightarrow> c = Medium)
         \<and> (\<bar>cohens_h rate_t rate_c\<bar> = 5 / 10 \<longrightarrow> c = Large)"
proof -
  have s: "sqrt rate_c \<le> 1" "sqrt rate_t \<le> 1" "- 1 \<le> sqrt rate_c" "- 1 \<le> sqrt rate_t"
    using assms(3-6) by (simp_all add: order_trans[of "- 1" 0])
  have n: "\<not> rate_c < 0" "\<not> rate_t < 0"
    using assms(3,5) by simp_all
  show ?thesis
    using assms(1,2) s n
    by (simp add: calculate_effect_size_def Let_def cohens_h_def spec_effect_category_def)
qed

text \<open>
  Both boundaries are reached: from a control rate 0, the treatment rate
  \<open>(sin x)\<^sup>2\<close> gives \<open>h = 2 x\<close>.
\<close>

lemma cohens_h_from_zero:
  assumes "0 \<le> x" "x \<le> 1"
  shows "cohens_h ((sin x)\<^sup>2) 0 = 2 * x"
proof -
  have "x \<le> pi / 2" using assms pi_ge_two by linarith
  moreover have "0 \<le> sin x" using assms pi_ge_two by (intro sin_ge_zero) linarith+
  ultimately show ?thesis
    using assms by (simp add: cohens_h_def arcsin_sin)
qed

text \<open>
  \<open>h = 0.2\<close> exactly is Medium, \<open>h = 0.5\<close> exactly is Large, and equal rates give
  \<open>h = 0\<close>, Small.
\<close>

theorem effect_size_category_witness:
  "(0 :: real) \<le> (sin (1 / 10))\<^sup>2 \<and> (sin (1 / 10 :: real))\<^sup>2 \<le> 1
   \<and> (\<exists>a'. calculate_effect_size (analyzer_with_rates 0 ((sin (1 / 10))\<^sup>2))
              = Inr (a', (Fin (2 / 10), Medium)))
   \<and> (\<exists>a'. calculate_effect_size (analyzer_with_rates 0 ((sin (1 / 4))\<^sup>2))
              = Inr (a', (Fin (5 / 10), Large)))
   \<and> (\<exists>a'. calculate_effect_size (analyzer_with_rates (1 / 2) (1 / 2))
              = Inr (a', (Fin 0, Small)))"
proof -
  have b: "(0 :: real) \<le> (sin x)\<^sup>2" "(sin (x :: real))\<^sup>2 \<le> 1" for x
    by (simp_all add: abs_square_le_1)
  have h1: "cohens_h ((sin (1 / 10))\<^sup>2) 0 = 2 / 10"
    and h2: "cohens_h ((sin (1 / 4))\<^sup>2) 0 = 5 / 10"
    by (simp_all add: cohens_h_from_zero)
  have h3: "cohens_h (1 / 2) (1 / 2) = 0"
    by (simp add: cohens_h_def)
  have m: "\<exists>a'. calculate_effect_size (analyzer_with_rates 0 ((sin (1 / 10))\<^sup>2))
              = Inr (a', (Fin (2 / 10), Medium))"
    using effect_size_category[of "analyzer_with_rates 0 ((sin (1 / 10))\<^sup>2)" 0 "(sin (1 / 10))\<^sup>2"]
    by (auto simp: b h1)
  have l: "\<exists>a'. calculate_effect_size (analyzer_with_rates 0 ((sin (1 / 4))\<^sup>2))
              = Inr (a', (Fin (5 / 10), Large))"
    using effect_size_category[of "analyzer_with_rates 0 ((sin (1 / 4))\<^sup>2)" 0 "(sin (1 / 4))\<^sup>2"]
    by (auto simp: b h2)
  have sm: "\<exists>a'. calculate_effect_size (analyzer_with_rates (1 / 2) (1 / 2))
              = Inr (a', (Fin 0, Small))"
    using effect_size_category[of "analyzer_with_rates (1 / 2) (1 / 2)" "1 / 2" "1 / 2"]
    by (auto simp: h3)
  from m l sm b show ?thesis by blast
qed

section \<open>Relative lift\<close>



section \<open>Symmetry of the confidence intervals\<close>




section \<open>Business impact\<close>



section \<open>The z-test\<close>

lemma pooled_variance_pos:
  fixes s :: int and n :: nat
  assumes "0 < s" "s < int n" "n_c \<noteq> 0" "n_t \<noteq> 0"
  shows "0 < real_of_int s / real n * (1 - real_of_int s / real n) * (1 / real n_c + 1 / real n_t)"
proof -
  define p where "p = real_of_int s / real n"
  define w where "w = 1 / real n_c + 1 / real n_t"
  have n: "0 < real n" using assms(1,2) by auto
  have "0 < p" using assms(1) n by (simp add: p_def)
  moreover have "p < 1" using assms(2) n by (simp add: p_def)
  moreover have "0 < w" using assms(3,4) by (simp add: w_def add_pos_pos)
  ultimately have "0 < p * (1 - p) * w"
    by (intro mult_pos_pos) simp_all
  then show ?thesis by (simp only: p_def w_def)
qed

text \<open>
  C8. For non-empty cohorts whose pooled proportion lies strictly between 0 and 1 (the
  pooled variance is not zero), \<open>calculate_basic_metrics\<close> followed by
  \<open>run_hypothesis_test\<close> returns and stores \<open>z = (rate_t - rate_c) / se\<close> with the
  pooled standard error and the p-value \<open>2 * (1 - Phi |z|)\<close>. When the two empirical
  rates are identical, in particular for equal \<open>n\<close> and equal numbers of conversions,
  \<open>z\<close> is 0 and the p-value is 1.
\<close>

theorem z_test:
  fixes a :: analyzer
  defines "cs \<equiv> cohort Control (df a)" and "ts \<equiv> cohort Treatment (df a)"
  defines "se \<equiv> spec_pooled_se (sum_list cs) (length cs) (sum_list ts) (length ts)"
  assumes "cs \<noteq> []" and "ts \<noteq> []"
    and "0 < sum_list cs + sum_list ts"
    and "sum_list cs + sum_list ts < int (length cs + length ts)"
  shows "\<exists>a1 s a2 z p.
           calculate_basic_metrics a = Inr (a1, s)
         \<and> run_hypothesis_test L a1 = Inr (a2, (Fin z, Fin p))
         \<and> res_z_stat (results a2) = Some (Fin z)
         \<and> res_p_value (results a2) = Some (Fin p)
         \<and> z = spec_z_stat (empirical_rate ts) (empirical_rate cs) se
         \<and> p = spec_p_value z
         \<and> (empirical_rate ts = empirical_rate cs \<longrightarrow> z = 0 \<and> p = 1)"
proof -
  let ?v = "real_of_int (sum_list cs + sum_list ts) / real (length cs + length ts)
            * (1 - real_of_int (sum_list cs + sum_list ts) / real (length cs + length ts))
            * (1 / real (length cs) + 1 / real (length ts))"
  have v: "0 < ?v"
    using assms(4-7) by (intro pooled_variance_pos) simp_all
  then have se: "se = sqrt ?v" "0 < se"
    by (simp_all add: se_def spec_pooled_se_def Let_def)
  obtain a1 s where
    m: "calculate_basic_metrics a = Inr (a1, s)"
    and rc: "res_control_rate (results a1) = Some (Fin (empirical_rate cs))"
    and rt: "res_treatment_rate (results a1) = Some (Fin (empirical_rate ts))"
    using assms(4,5)
    by (simp add: calculate_basic_metrics_def Let_def loc_mean_group_summary cs_def ts_def)
  have d: "df a1 = df a"
    using calculate_basic_metrics_frame[OF m] by simp
  define v where "v = ?v"
  have "0 < v" using v by (simp only: v_def)
  then have "\<not> v < 0" "sqrt v \<noteq> 0"
    by simp_all
  note nv = this[unfolded v_def]
  have "0 < real (length cs)" "0 < real (length ts)"
    using assms(4,5) by simp_all
  then have len: "real (length cs) + real (length ts) \<noteq> 0"
    by linarith
  have "\<exists>a2. run_hypothesis_test L a1
          = Inr (a2, (Fin (spec_z_stat (empirical_rate ts) (empirical_rate cs) se),
                      Fin (spec_p_value (spec_z_stat (empirical_rate ts) (empirical_rate cs) se))))
        \<and> res_z_stat (results a2) = Some (Fin (spec_z_stat (empirical_rate ts) (empirical_rate cs) se))
        \<and> res_p_value (results a2)
            = Some (Fin (spec_p_value (spec_z_stat (empirical_rate ts) (empirical_rate cs) se)))"
    using rc rt nv len assms(4,5) unfolding se(1)
    by (simp add: run_hypothesis_test_def Let_def d cs_def[symmetric] ts_def[symmetric]
          spec_z_stat_def spec_p_value_def)
  moreover have "empirical_rate ts = empirical_rate cs \<longrightarrow>
      spec_z_stat (empirical_rate ts) (empirical_rate cs) se = 0
      \<and> spec_p_value (spec_z_stat (empirical_rate ts) (empirical_rate cs) se) = 1"
    by (simp add: spec_z_stat_def spec_p_value_def std_normal_cdf_0)
  ultimately show ?thesis
    using m by blast
qed

text \<open>Control and treatment both \<open>[1, 0]\<close>: identical rates 1/2, so \<open>z = 0\<close> and \<open>p = 1\<close>.\<close>

theorem z_test_witness:
  "cohort Control (df (example_analyzer [1, 0] [1, 0])) \<noteq> []
   \<and> cohort Treatment (df (example_analyzer [1, 0] [1, 0])) \<noteq> []
   \<and> 0 < sum_list (cohort Control (df (example_analyzer [1, 0] [1, 0])))
           + sum_list (cohort Treatment (df (example_analyzer [1, 0] [1, 0])))
   \<and> sum_list (cohort Control (df (example_analyzer [1, 0] [1, 0])))
         + sum_list (cohort Treatment (df (example_analyzer [1, 0] [1, 0])))
       < int (length (cohort Control (df (example_analyzer [1, 0] [1, 0])))
              + length (cohort Treatment (df (example_analyzer [1, 0] [1, 0]))))
   \<and> empirical_rate (cohort Treatment (df (example_analyzer [1, 0] [1, 0])))
       = empirical_rate (cohort Control (df (example_analyzer [1, 0] [1, 0])))
   \<and> (\<exists>a1 s a2. calculate_basic_metrics (example_analyzer [1, 0] [1, 0]) = Inr (a1, s)
         \<and> run_hypothesis_test example_lib a1 = Inr (a2, (Fin 0, Fin 1))
         \<and> res_z_stat (results a2) = Some (Fin 0)
         \<and> res_p_value (results a2) = Some (Fin 1))"
proof -
  let ?a = "example_analyzer [1, 0] [1, 0]"
  have c: "cohort Control (df ?a) = [1, 0]" "cohort Treatment (df ?a) = [1, 0]"
    by (simp_all add: cohort_example_analyzer)
  from z_test[of ?a example_lib] obtain a1 s a2 z p where
    "calculate_basic_metrics ?a = Inr (a1, s)"
    "run_hypothesis_test example_lib a1 = Inr (a2, (Fin z, Fin p))"
    "res_z_stat (results a2) = Some (Fin z)"
    "res_p_value (results a2) = Some (Fin p)"
    "z = 0 \<and> p = 1"
    unfolding c by auto
  then show ?thesis
    unfolding c by auto
qed

section \<open>Reproducible data generation\<close>

text \<open>
  C9. Data generation is deterministic: whatever the state of the generator before the
  constructor is called, the same configuration gives the same outcome of the
  constructor (the same exception, or the same analyzer with the same cohorts, and the
  same generator state afterwards), and hence the same outcome of the full analysis:
  the same exception, or the same results and recommendation.
\<close>

theorem data_generation_deterministic:
  "ABTestAnalyzer_init R g1 p_c p_t n al = ABTestAnalyzer_init R g2 p_c p_t n al
   \<and> analysis_run R L g1 p_c p_t n al = analysis_run R L g2 p_c p_t n al"
  by (simp add: ABTestAnalyzer_init_def analysis_run_def)

section \<open>Confidence intervals and the significance level\<close>

text \<open>
  C10. The significance level has no influence on the confidence intervals: for any
  two values of \<open>alpha\<close> and the same remaining fields, \<open>calculate_confidence_intervals\<close>
  raises the same exception or leaves the same results and returns the same three
  intervals.
\<close>

theorem confidence_intervals_ignore_alpha:
  "ci_outcome L (a\<lparr>alpha := x\<rparr>) = ci_outcome L (a\<lparr>alpha := y\<rparr>)"
  by (simp add: ci_outcome_def calculate_confidence_intervals_def Let_def
           split: option.splits)

end
